theory Spec2Isabelle
  imports Complex_Main
begin

section \<open>The HTTP client of package http\<close>

text \<open>
  The client issues outbound requests through collaborators of the Go standard library
  (encoding/json, net/http, io, time). Their results are not computed by the package, so
  the model takes them from an environment record; everything the package itself does
  (building the request, merging headers, the retry loop, the JSON layer) is translated
  from its source. Pointers are modelled by the records they point to: \<open>NewClient\<close> and
  the verb helpers never pass a nil client, configuration or request. A Go result pair
  \<open>(*Response, error)\<close> is a pair of options, \<open>None\<close> standing for nil.
\<close>

subsection \<open>Errors\<close>

datatype error =
    External string
  | Wrapf string error
  | AttemptsErr int "error option"
  | HTTPError int

text \<open>
  \<open>External\<close> is an error value handed back by a library call; \<open>Wrapf m e\<close> is
  \<open>fmt.Errorf("m: %w", e)\<close>; \<open>AttemptsErr n e\<close> is
  \<open>fmt.Errorf("request failed after %d attempts: %w", n, e)\<close>, where \<open>e\<close> may be nil;
  \<open>HTTPError s\<close> is \<open>fmt.Errorf("HTTP error: %d", s)\<close>.
\<close>

subsection \<open>Data\<close>

type_synonym duration = int
type_synonym bytes = string
type_synonym header = "string \<rightharpoonup> string list"

text \<open>
  A Go \<open>map[string]string\<close> is ranged over in an order the runtime picks. It is modelled
  as the list of its entries in the order of that iteration; its keys are distinct.
\<close>

type_synonym gomap = "(string \<times> string) list"

record 'f RetryConfig =
  MaxRetries :: int
  Delay :: duration
  Backoff :: 'f

record CircuitBreaker =
  MaxFailures :: int
  Timeout :: duration
  ResetTimeout :: duration

record 'b Request =
  Method :: string
  URL :: string
  Headers :: gomap
  Body :: "'b option"
  Query :: gomap

record Response =
  StatusCode :: int
  RespHeaders :: header
  RespBody :: bytes

record 'f Client =
  httpTimeout :: duration
  baseURL :: string
  defaultHeaders :: gomap
  retryConfig :: "'f RetryConfig"
  circuitBreaker :: CircuitBreaker

text \<open>The request of net/http that is handed to the transport.\<close>

record 'c httpRequest =
  hCtx :: 'c
  hMethod :: string
  hURL :: string
  hBody :: "bytes option"
  hHeader :: header

text \<open>
  What \<open>httpClient.Do\<close> hands back when it succeeds: status, headers, and the outcome of
  reading the body stream with \<open>io.ReadAll\<close>.
\<close>

record rawResponse =
  rStatus :: int
  rHeader :: header
  rBody :: "error + bytes"

subsection \<open>The environment\<close>

text \<open>
  \<open>marshal\<close> and \<open>unmarshal\<close> are \<open>json.Marshal\<close> and \<open>json.Unmarshal\<close> (the latter
  updates the destination it is given); \<open>newRequest\<close> is the validation done by
  \<open>http.NewRequestWithContext\<close>, \<open>background\<close> is \<open>context.Background()\<close>;
  \<open>canonicalKey\<close> is the key canonicalisation of \<open>Header.Set\<close>; \<open>roundTrip k r\<close> is the
  result of the \<open>k\<close>-th call of \<open>httpClient.Do\<close> (counted from 0) on request \<open>r\<close>.
  The remaining fields are the float64 operations the backoff computation uses:
  conversion from an integer, multiplication, the constant 1.0 and the conversion to a
  64-bit integer.
\<close>

record ('b, 'f, 'c, 'd) env =
  marshal :: "'b \<Rightarrow> error + bytes"
  unmarshal :: "bytes \<Rightarrow> 'd \<Rightarrow> error option \<times> 'd"
  newRequest :: "'c \<Rightarrow> string \<Rightarrow> string \<Rightarrow> error option"
  background :: 'c
  canonicalKey :: "string \<Rightarrow> string"
  roundTrip :: "nat \<Rightarrow> 'c httpRequest \<Rightarrow> error + rawResponse"
  fOfInt :: "int \<Rightarrow> 'f"
  fMul :: "'f \<Rightarrow> 'f \<Rightarrow> 'f"
  fOne :: 'f
  fToInt :: "'f \<Rightarrow> int"

text \<open>
  The observable effects: the requests handed to the transport so far, the arguments of
  \<open>time.Sleep\<close> so far, and the number of single-request attempts started.
\<close>

record 'c world =
  sent :: "'c httpRequest list"
  slept :: "duration list"
  attempts :: nat

subsection \<open>NewClient and the setters\<close>

definition second :: duration where
  "second = 1000000000"

definition NewClient :: "('b, 'f, 'c, 'd) env \<Rightarrow> string \<Rightarrow> 'f Client" where
  "NewClient E url =
     \<lparr> httpTimeout = 30 * second,
       baseURL = url,
       defaultHeaders = [],
       retryConfig = \<lparr> MaxRetries = 3, Delay = 1 * second,
                       Backoff = fOfInt E 2 \<rparr>,
       circuitBreaker = \<lparr> MaxFailures = 5, Timeout = 30 * second,
                          ResetTimeout = 60 * second \<rparr> \<rparr>"

definition SetRetryConfig :: "'f Client \<Rightarrow> 'f RetryConfig \<Rightarrow> 'f Client" where
  "SetRetryConfig c config = c\<lparr>retryConfig := config\<rparr>"

definition SetCircuitBreaker :: "'f Client \<Rightarrow> CircuitBreaker \<Rightarrow> 'f Client" where
  "SetCircuitBreaker c config = c\<lparr>circuitBreaker := config\<rparr>"

definition SetTimeout :: "'f Client \<Rightarrow> duration \<Rightarrow> 'f Client" where
  "SetTimeout c timeout = c\<lparr>httpTimeout := timeout\<rparr>"

text \<open>
  Storing into a Go map replaces the value of a key that is present and adds a key that is
  not; where the new key shows up when the map is ranged over is up to the runtime, the
  model puts it last.
\<close>

fun mapSet :: "gomap \<Rightarrow> string \<Rightarrow> string \<Rightarrow> gomap" where
  "mapSet [] key v = [(key, v)]"
| "mapSet ((k, u) # m) key v = (if k = key then (k, v) # m else (k, u) # mapSet m key v)"

definition SetDefaultHeader :: "'f Client \<Rightarrow> string \<Rightarrow> string \<Rightarrow> 'f Client" where
  "SetDefaultHeader c key v = c\<lparr>defaultHeaders := mapSet (defaultHeaders c) key v\<rparr>"

definition SetDefaultHeaders :: "'f Client \<Rightarrow> gomap \<Rightarrow> 'f Client" where
  "SetDefaultHeaders c headers = fold (\<lambda>(key, v) c'. SetDefaultHeader c' key v) headers c"

subsection \<open>A single request\<close>

definition headerSet :: "('b, 'f, 'c, 'd) env \<Rightarrow> header \<Rightarrow> string \<Rightarrow> string \<Rightarrow> header" where
  "headerSet E h key v = h(canonicalKey E key \<mapsto> [v])"

fun setAll :: "('b, 'f, 'c, 'd) env \<Rightarrow> gomap \<Rightarrow> header \<Rightarrow> header" where
  "setAll E [] h = h"
| "setAll E ((key, v) # kvs) h = setAll E kvs (headerSet E h key v)"

definition requestHeader :: "('b, 'f, 'c, 'd) env \<Rightarrow> 'f Client \<Rightarrow> 'b Request \<Rightarrow> header" where
  "requestHeader E c req =
     (let h1 = setAll E (defaultHeaders c) Map.empty;
          h2 = setAll E (Headers req) h1
      in if Body req \<noteq> None then headerSet E h2 ''Content-Type'' ''application/json''
         else h2)"

definition marshalBody :: "('b, 'f, 'c, 'd) env \<Rightarrow> 'b option \<Rightarrow> error + bytes option" where
  "marshalBody E body =
     (case body of
        None \<Rightarrow> Inr None
      | Some b \<Rightarrow> (case marshal E b of Inl e \<Rightarrow> Inl e | Inr bs \<Rightarrow> Inr (Some bs)))"

definition doRequest ::
  "('b, 'f, 'c, 'd) env \<Rightarrow> 'f Client \<Rightarrow> 'b Request \<Rightarrow> 'c world
     \<Rightarrow> (Response option \<times> error option) \<times> 'c world" where
  "doRequest E c req w =
     (let w1 = w\<lparr>attempts := attempts w + 1\<rparr>;
          url = baseURL c @ URL req
      in case marshalBody E (Body req) of
           Inl e \<Rightarrow> ((None, Some (Wrapf ''failed to marshal body'' e)), w1)
         | Inr bodyReader \<Rightarrow>
            (case newRequest E (background E) (Method req) url of
               Some e \<Rightarrow> ((None, Some (Wrapf ''failed to create request'' e)), w1)
             | None \<Rightarrow>
                (let httpReq = \<lparr> hCtx = background E, hMethod = Method req, hURL = url,
                                 hBody = bodyReader, hHeader = requestHeader E c req \<rparr>;
                     w2 = w1\<lparr>sent := sent w1 @ [httpReq]\<rparr>
                 in case roundTrip E (length (sent w1)) httpReq of
                      Inl e \<Rightarrow> ((None, Some (Wrapf ''request failed'' e)), w2)
                    | Inr resp \<Rightarrow>
                       (case rBody resp of
                          Inl e \<Rightarrow>
                            ((None, Some (Wrapf ''failed to read response body'' e)), w2)
                        | Inr body \<Rightarrow>
                            ((Some \<lparr> StatusCode = rStatus resp,
                                     RespHeaders = rHeader resp,
                                     RespBody = body \<rparr>, None), w2)))))"

subsection \<open>Backoff\<close>

function pow_loop :: "('b, 'f, 'c, 'd) env \<Rightarrow> 'f \<Rightarrow> int \<Rightarrow> int \<Rightarrow> 'f \<Rightarrow> 'f" where
  "pow_loop E x n i result =
     (if i < n then pow_loop E x n (i + 1) (fMul E result x) else result)"
  by pat_completeness auto
termination
  by (relation "measure (\<lambda>(E, x, n, i, result). nat (n - i))") auto

definition pow :: "('b, 'f, 'c, 'd) env \<Rightarrow> 'f \<Rightarrow> 'f \<Rightarrow> 'f" where
  "pow E x y = pow_loop E x (fToInt E y) 0 (fOne E)"

definition backoffDelay :: "('b, 'f, 'c, 'd) env \<Rightarrow> 'f RetryConfig \<Rightarrow> int \<Rightarrow> duration" where
  "backoffDelay E rc attempt =
     fToInt E (fMul E (fOfInt E (Delay rc)) (pow E (Backoff rc) (fOfInt E attempt)))"

subsection \<open>The retry loop\<close>

text \<open>Go's \<open>int\<close> is 64 bits wide here; \<open>int64\<close> is the value an arithmetic result wraps to.\<close>

definition int64 :: "int \<Rightarrow> int" where
  "int64 x = (x + 2 ^ 63) mod 2 ^ 64 - 2 ^ 63"

definition exhausted :: "'f Client \<Rightarrow> error option \<Rightarrow> error" where
  "exhausted c lastErr = AttemptsErr (int64 (MaxRetries (retryConfig c) + 1)) lastErr"

text \<open>
  The loop of \<open>Do\<close>, from attempt index \<open>attempt\<close> with the last error seen so far. The
  increment of \<open>attempt\<close> cannot overflow: it is taken only below \<open>MaxRetries\<close>.
\<close>

function Do_loop ::
  "('b, 'f, 'c, 'd) env \<Rightarrow> 'f Client \<Rightarrow> 'b Request \<Rightarrow> int \<Rightarrow> error option \<Rightarrow> 'c world
     \<Rightarrow> (Response option \<times> error option) \<times> 'c world" where
  "Do_loop E c req attempt lastErr w =
     (if attempt \<le> MaxRetries (retryConfig c) then
        (let r = doRequest E c req w in
         if snd (fst r) = None then ((fst (fst r), None), snd r)
         else if attempt = MaxRetries (retryConfig c) then
           ((None, Some (exhausted c (snd (fst r)))), snd r)
         else
           Do_loop E c req (attempt + 1) (snd (fst r))
             ((snd r)\<lparr>slept := slept (snd r) @ [backoffDelay E (retryConfig c) attempt]\<rparr>))
      else ((None, Some (exhausted c lastErr)), w))"
  by pat_completeness auto
termination
  by (relation "measure (\<lambda>(E, c, req, attempt, lastErr, w).
        nat (MaxRetries (retryConfig c) - attempt))") auto

definition Do ::
  "('b, 'f, 'c, 'd) env \<Rightarrow> 'f Client \<Rightarrow> 'b Request \<Rightarrow> 'c world
     \<Rightarrow> (Response option \<times> error option) \<times> 'c world" where
  "Do E c req w = Do_loop E c req 0 None w"

subsection \<open>Verb helpers\<close>

definition Get where
  "Get E c url headers =
     Do E c \<lparr> Method = ''GET'', URL = url, Headers = headers, Body = None, Query = [] \<rparr>"

definition Post where
  "Post E c url body headers =
     Do E c \<lparr> Method = ''POST'', URL = url, Headers = headers, Body = body, Query = [] \<rparr>"

definition Put where
  "Put E c url body headers =
     Do E c \<lparr> Method = ''PUT'', URL = url, Headers = headers, Body = body, Query = [] \<rparr>"

definition Delete where
  "Delete E c url headers =
     Do E c \<lparr> Method = ''DELETE'', URL = url, Headers = headers, Body = None, Query = [] \<rparr>"

subsection \<open>The JSON layer\<close>

text \<open>
  \<open>JSON\<close> dereferences the response once \<open>Do\<close> reports no error; a nil response there
  would be a nil-pointer panic, which the model keeps as a result of its own.
\<close>

datatype 'a outcome = Panic | Return 'a

definition JSON ::
  "('b, 'f, 'c, 'd) env \<Rightarrow> 'f Client \<Rightarrow> 'b Request \<Rightarrow> 'd \<Rightarrow> 'c world
     \<Rightarrow> (error option \<times> 'd) outcome \<times> 'c world" where
  "JSON E c req result w =
     (let r = Do E c req w in
      case snd (fst r) of
        Some err \<Rightarrow> (Return (Some err, result), snd r)
      | None \<Rightarrow>
         (case fst (fst r) of
            None \<Rightarrow> (Panic, snd r)
          | Some resp \<Rightarrow>
             if StatusCode resp \<ge> 400 then
               (Return (Some (HTTPError (StatusCode resp)), result), snd r)
             else (Return (unmarshal E (RespBody resp) result), snd r)))"

definition GetJSON where
  "GetJSON E c url result headers =
     JSON E c \<lparr> Method = ''GET'', URL = url, Headers = headers, Body = None, Query = [] \<rparr>
       result"

definition PostJSON where
  "PostJSON E c url body result headers =
     JSON E c \<lparr> Method = ''POST'', URL = url, Headers = headers, Body = body, Query = [] \<rparr>
       result"

definition PutJSON where
  "PutJSON E c url body result headers =
     JSON E c \<lparr> Method = ''PUT'', URL = url, Headers = headers, Body = body, Query = [] \<rparr>
       result"

definition DeleteJSON where
  "DeleteJSON E c url result headers =
     JSON E c \<lparr> Method = ''DELETE'', URL = url, Headers = headers, Body = None, Query = [] \<rparr>
       result"

subsection \<open>WithContext\<close>


section \<open>The rate limiter\<close>

text \<open>
  A buffered channel is its buffer and its capacity. A send is possible while the buffer
  is not full and a receive while it is not empty; otherwise the goroutine blocks, which
  is \<open>None\<close> here.
\<close>

type_synonym time = int

record 'a chan =
  buf :: "'a list"
  cap :: nat

definition send :: "'a chan \<Rightarrow> 'a \<Rightarrow> 'a chan option" where
  "send ch v = (if length (buf ch) < cap ch then Some (ch\<lparr>buf := buf ch @ [v]\<rparr>) else None)"

definition recv :: "'a chan \<Rightarrow> ('a \<times> 'a chan) option" where
  "recv ch = (case buf ch of [] \<Rightarrow> None | v # vs \<Rightarrow> Some (v, ch\<lparr>buf := vs\<rparr>))"

text \<open>
  The limiter together with the goroutines started by \<open>Wait\<close> that have not yet put
  their token back; each of them holds the time it will send.
\<close>

record RateLimiter =
  requests :: "time chan"
  rate :: duration
  refills :: "time list"

text \<open>
  The loop of \<open>NewRateLimiter\<close> that fills the channel; \<open>clock i\<close> is the reading of
  \<open>time.Now()\<close> in round \<open>i\<close>. A send on a full channel would block for ever.
\<close>

function fill :: "(int \<Rightarrow> time) \<Rightarrow> int \<Rightarrow> int \<Rightarrow> time chan \<Rightarrow> time chan option" where
  "fill clock burst i ch =
     (if i < burst then
        (case send ch (clock i) of None \<Rightarrow> None | Some ch' \<Rightarrow> fill clock burst (i + 1) ch')
      else Some ch)"
  by pat_completeness auto
termination
  by (relation "measure (\<lambda>(clock, burst, i, ch). nat (burst - i))") auto

text \<open>\<open>make(chan time.Time, burst)\<close> panics when \<open>burst\<close> is negative.\<close>

definition NewRateLimiter :: "(int \<Rightarrow> time) \<Rightarrow> duration \<Rightarrow> int \<Rightarrow> RateLimiter option" where
  "NewRateLimiter clock r burst =
     (if burst < 0 then None
      else case fill clock burst 0 \<lparr> buf = [], cap = nat burst \<rparr> of
             None \<Rightarrow> None
           | Some ch \<Rightarrow> Some \<lparr> requests = ch, rate = r, refills = [] \<rparr>)"

text \<open>
  \<open>Wait\<close> at time \<open>now\<close>: both branches of its \<open>select\<close> receive one token, the second
  one after blocking; then the goroutine that will send \<open>now\<close> is started.
\<close>

definition Wait :: "time \<Rightarrow> RateLimiter \<Rightarrow> RateLimiter option" where
  "Wait now rl =
     (case recv (requests rl) of
        None \<Rightarrow> None
      | Some (t, ch) \<Rightarrow> Some (rl\<lparr>requests := ch, refills := refills rl @ [now]\<rparr>))"

text \<open>The \<open>k\<close>-th pending goroutine wakes up and sends its token.\<close>

definition replenish :: "nat \<Rightarrow> RateLimiter \<Rightarrow> RateLimiter option" where
  "replenish k rl =
     (if k < length (refills rl) then
        (case send (requests rl) (refills rl ! k) of
           None \<Rightarrow> None
         | Some ch \<Rightarrow>
             Some (rl\<lparr>requests := ch,
                      refills := take k (refills rl) @ drop (Suc k) (refills rl)\<rparr>))
      else None)"

inductive step :: "RateLimiter \<Rightarrow> RateLimiter \<Rightarrow> bool" where
  wait: "Wait now rl = Some rl' \<Longrightarrow> step rl rl'"
| refill: "replenish k rl = Some rl' \<Longrightarrow> step rl rl'"

inductive reachable :: "RateLimiter \<Rightarrow> RateLimiter \<Rightarrow> bool" for rl0 where
  init: "reachable rl0 rl0"
| next_step: "reachable rl0 rl \<Longrightarrow> step rl rl' \<Longrightarrow> reachable rl0 rl'"

definition tokens :: "RateLimiter \<Rightarrow> int" where
  "tokens rl = int (length (buf (requests rl)))"

section \<open>Concrete collaborators\<close>

text \<open>
  The theorems below hold for every environment. To evaluate the client on concrete
  inputs, this section fixes one. A body is a string, which \<open>json.Marshal\<close> quotes, or a
  channel, which it rejects. The destination of \<open>json.Unmarshal\<close> is a
  \<open>json.RawMessage\<close>, which receives the bytes decoded; empty input is an error. A
  context is a name, the empty name standing for the nil context that
  \<open>http.NewRequestWithContext\<close> rejects, as it rejects a method with a space in it. Header
  keys are canonicalised as the documentation of net/textproto describes: a key made of
  token bytes gets an upper-case letter at its start and after every hyphen and
  lower-case letters elsewhere, any other key is left alone. The float64 operations are
  those of the integers, which float64 represents exactly up to \<open>2 ^ 53\<close>; \<open>exactEnv\<close>
  takes the rationals instead, so that a backoff factor can have a fraction, and converts
  to an integer as Go does, by cutting the fraction off.
\<close>

datatype body = JString string | JChan

definition jsonMarshal :: "body \<Rightarrow> error + bytes" where
  "jsonMarshal b =
     (case b of
        JString s \<Rightarrow> Inr (CHR 0x22 # s @ [CHR 0x22])
      | JChan \<Rightarrow> Inl (External ''json: unsupported type: chan int''))"

definition jsonUnmarshal :: "bytes \<Rightarrow> bytes \<Rightarrow> error option \<times> bytes" where
  "jsonUnmarshal bs dest =
     (if bs = [] then (Some (External ''unexpected end of JSON input''), dest)
      else (None, bs))"

definition checkRequest :: "string \<Rightarrow> string \<Rightarrow> string \<Rightarrow> error option" where
  "checkRequest ctx method url =
     (if ctx = [] then Some (External ''net/http: nil Context'')
      else if CHR '' '' \<in> set method then Some (External ''net/http: invalid method'')
      else None)"

definition isLower :: "char \<Rightarrow> bool" where
  "isLower c = (97 \<le> (of_char c :: nat) \<and> (of_char c :: nat) \<le> 122)"

definition isUpper :: "char \<Rightarrow> bool" where
  "isUpper c = (65 \<le> (of_char c :: nat) \<and> (of_char c :: nat) \<le> 90)"

definition isDigit :: "char \<Rightarrow> bool" where
  "isDigit c = (48 \<le> (of_char c :: nat) \<and> (of_char c :: nat) \<le> 57)"

definition validHeaderFieldByte :: "char \<Rightarrow> bool" where
  "validHeaderFieldByte c =
     (isLower c \<or> isUpper c \<or> isDigit c \<or>
      (of_char c :: nat) \<in> set [33, 35, 36, 37, 38, 39, 42, 43, 45, 46, 94, 95, 96, 124, 126])"

fun canonical :: "bool \<Rightarrow> string \<Rightarrow> string" where
  "canonical upper [] = []"
| "canonical upper (c # cs) =
     (let c' = (if upper \<and> isLower c then char_of (of_char c - 32 :: nat)
                else if \<not> upper \<and> isUpper c then char_of (of_char c + 32 :: nat)
                else c)
      in c' # canonical (c' = CHR ''-'') cs)"

definition CanonicalMIMEHeaderKey :: "string \<Rightarrow> string" where
  "CanonicalMIMEHeaderKey s = (if list_all validHeaderFieldByte s then canonical True s else s)"

definition goEnv ::
  "(nat \<Rightarrow> string httpRequest \<Rightarrow> error + rawResponse) \<Rightarrow> (body, int, string, bytes) env" where
  "goEnv transport =
     \<lparr> marshal = jsonMarshal, unmarshal = jsonUnmarshal, newRequest = checkRequest,
       background = ''context.Background'', canonicalKey = CanonicalMIMEHeaderKey,
       roundTrip = transport,
       fOfInt = (\<lambda>i. i), fMul = (\<lambda>x y. x * y), fOne = 1, fToInt = (\<lambda>x. x) \<rparr>"

definition trunc :: "rat \<Rightarrow> int" where
  "trunc x = (if 0 \<le> x then \<lfloor>x\<rfloor> else \<lceil>x\<rceil>)"

definition exactEnv ::
  "(nat \<Rightarrow> string httpRequest \<Rightarrow> error + rawResponse) \<Rightarrow> (body, rat, string, bytes) env" where
  "exactEnv transport =
     \<lparr> marshal = jsonMarshal, unmarshal = jsonUnmarshal, newRequest = checkRequest,
       background = ''context.Background'', canonicalKey = CanonicalMIMEHeaderKey,
       roundTrip = transport,
       fOfInt = (\<lambda>i. of_int i), fMul = (\<lambda>x y. x * y), fOne = 1, fToInt = trunc \<rparr>"

definition refused :: "nat \<Rightarrow> string httpRequest \<Rightarrow> error + rawResponse" where
  "refused k r = Inl (External ''connection refused'')"

definition answers :: "int \<Rightarrow> bytes \<Rightarrow> nat \<Rightarrow> string httpRequest \<Rightarrow> error + rawResponse" where
  "answers status body k r = Inr \<lparr> rStatus = status, rHeader = Map.empty, rBody = Inr body \<rparr>"

definition unreadable :: "int \<Rightarrow> nat \<Rightarrow> string httpRequest \<Rightarrow> error + rawResponse" where
  "unreadable status k r =
     Inr \<lparr> rStatus = status, rHeader = Map.empty, rBody = Inl (External ''unexpected EOF'') \<rparr>"

definition recovering :: "nat \<Rightarrow> string httpRequest \<Rightarrow> error + rawResponse" where
  "recovering k r =
     (if k < 2 then Inl (External ''connection reset'')
      else Inr \<lparr> rStatus = 200, rHeader = Map.empty, rBody = Inr ''{}'' \<rparr>)"

definition world0 :: "string world" where
  "world0 = \<lparr> sent = [], slept = [], attempts = 0 \<rparr>"

section \<open>Notions used in the statements\<close>

text \<open>
  The request that an attempt hands to the transport; a Go map with its keys canonicalised;
  a map of single values read as a header; the error with which an attempt stops before
  it reaches the transport, if it does; and an attempt that reaches the transport and
  fails, because the transport call fails or because the body of its response cannot be
  read.
\<close>

definition outgoing ::
  "('b, 'f, 'c, 'd) env \<Rightarrow> 'f Client \<Rightarrow> 'c \<Rightarrow> 'b Request \<Rightarrow> bytes option \<Rightarrow> 'c httpRequest" where
  "outgoing E c ctx req bodyReader =
     \<lparr> hCtx = ctx, hMethod = Method req, hURL = baseURL c @ URL req, hBody = bodyReader,
       hHeader = requestHeader E c req \<rparr>"

definition canonKeys :: "('b, 'f, 'c, 'd) env \<Rightarrow> gomap \<Rightarrow> gomap" where
  "canonKeys E m = map (\<lambda>(key, v). (canonicalKey E key, v)) m"

definition singletons :: "(string \<rightharpoonup> string) \<Rightarrow> header" where
  "singletons m = (\<lambda>key. map_option (\<lambda>v. [v]) (m key))"

definition buildError :: "('b, 'f, 'c, 'd) env \<Rightarrow> 'f Client \<Rightarrow> 'b Request \<Rightarrow> error option" where
  "buildError E c req =
     (case marshalBody E (Body req) of
        Inl e \<Rightarrow> Some (Wrapf ''failed to marshal body'' e)
      | Inr br \<Rightarrow>
         (case newRequest E (background E) (Method req) (baseURL c @ URL req) of
            Some e \<Rightarrow> Some (Wrapf ''failed to create request'' e)
          | None \<Rightarrow> None))"

definition attemptFailed ::
  "('b, 'f, 'c, 'd) env \<Rightarrow> 'c httpRequest \<Rightarrow> nat \<Rightarrow> bool" where
  "attemptFailed E r k =
     (case roundTrip E k r of Inl e \<Rightarrow> True | Inr resp \<Rightarrow> isl (rBody resp))"



subsection \<open>Concrete clients, requests and histories\<close>

text \<open>
  \<open>demoClient\<close> is the client \<open>NewClient\<close> returns; \<open>singleShot\<close> makes one attempt per
  call and carries a breaker configuration with \<open>MaxFailures = 3\<close>; \<open>world3\<close> is the
  history after three calls of \<open>Do\<close> on it against a transport that refuses every
  connection. \<open>headedClient\<close> and \<open>xmlClient\<close> have default headers. \<open>patient\<close> and
  \<open>fractional\<close> run on \<open>exactEnv\<close>: two retries, with delays of 100 ms doubled each
  time, and of one nanosecond times 1.5 each time.
\<close>

definition demoClient :: "int Client" where
  "demoClient = NewClient (goEnv refused) ''http://api.test''"

definition guarded :: CircuitBreaker where
  "guarded = \<lparr> MaxFailures = 3, Timeout = 30 * second, ResetTimeout = 60 * second \<rparr>"

definition singleShot :: "int Client" where
  "singleShot =
     SetCircuitBreaker
       (SetRetryConfig demoClient \<lparr> MaxRetries = 0, Delay = 1 * second, Backoff = 2 \<rparr>)
       guarded"

definition headedClient :: "int Client" where
  "headedClient =
     SetDefaultHeader (SetDefaultHeader demoClient ''accept'' ''text/html'') ''x-trace'' ''0''"

definition xmlClient :: "int Client" where
  "xmlClient = SetDefaultHeader demoClient ''Content-Type'' ''text/xml''"

definition patient :: "rat Client" where
  "patient =
     SetRetryConfig (NewClient (exactEnv refused) ''http://api.test'')
       \<lparr> MaxRetries = 2, Delay = 100000000, Backoff = 2 \<rparr>"

definition fractional :: "rat Client" where
  "fractional =
     SetRetryConfig (NewClient (exactEnv refused) ''http://api.test'')
       \<lparr> MaxRetries = 2, Delay = 1, Backoff = 3 / 2 \<rparr>"

definition getReq :: "body Request" where
  "getReq = \<lparr> Method = ''GET'', URL = ''/items'', Headers = [], Body = None, Query = [] \<rparr>"

definition chanReq :: "body Request" where
  "chanReq = \<lparr> Method = ''POST'', URL = ''/items'', Headers = [], Body = Some JChan,
               Query = [] \<rparr>"

definition textReq :: "body Request" where
  "textReq = \<lparr> Method = ''POST'', URL = ''/items'',
               Headers = [(''Content-Type'', ''text/plain'')],
               Body = Some (JString ''hi''), Query = [] \<rparr>"

definition overridingReq :: "body Request" where
  "overridingReq = \<lparr> Method = ''GET'', URL = ''/items'', Headers = [(''X-Trace'', ''1'')],
                     Body = None, Query = [] \<rparr>"

definition world3 :: "string world" where
  "world3 =
     snd (Do (goEnv refused) singleShot getReq
       (snd (Do (goEnv refused) singleShot getReq
         (snd (Do (goEnv refused) singleShot getReq world0)))))"

definition twoTokens :: RateLimiter where
  "twoTokens = \<lparr> requests = \<lparr> buf = [0, 1], cap = 2 \<rparr>, rate = second, refills = [] \<rparr>"

definition oneTaken :: RateLimiter where
  "oneTaken = \<lparr> requests = \<lparr> buf = [1], cap = 2 \<rparr>, rate = second, refills = [7] \<rparr>"

section \<open>Properties\<close>

subsection \<open>Unfolding the loops\<close>

declare Do_loop.simps [simp del] pow_loop.simps [simp del] fill.simps [simp del]

lemmas eval_defs =
  Do_def Do_loop.simps doRequest_def marshalBody_def requestHeader_def headerSet_def
  backoffDelay_def pow_def pow_loop.simps exhausted_def int64_def goEnv_def refused_def
  answers_def jsonMarshal_def jsonUnmarshal_def checkRequest_def CanonicalMIMEHeaderKey_def
  validHeaderFieldByte_def isLower_def isUpper_def isDigit_def demoClient_def NewClient_def
  guarded_def singleShot_def SetRetryConfig_def SetCircuitBreaker_def getReq_def chanReq_def
  textReq_def world0_def world3_def second_def char_of_def bit_Suc_0_iff
  SetDefaultHeader_def headedClient_def overridingReq_def canonKeys_def singletons_def
  exactEnv_def patient_def fractional_def trunc_def unreadable_def recovering_def
  attemptFailed_def xmlClient_def Let_def

lemma Do_loop_beyond:
  "\<not> attempt \<le> MaxRetries (retryConfig c) \<Longrightarrow>
   Do_loop E c req attempt lastErr w = ((None, Some (exhausted c lastErr)), w)"
  by (subst Do_loop.simps) simp

lemma Do_loop_success:
  "attempt \<le> MaxRetries (retryConfig c) \<Longrightarrow> snd (fst (doRequest E c req w)) = None \<Longrightarrow>
   Do_loop E c req attempt lastErr w =
     ((fst (fst (doRequest E c req w)), None), snd (doRequest E c req w))"
  by (subst Do_loop.simps) (auto simp: Let_def)

lemma Do_loop_last:
  "attempt = MaxRetries (retryConfig c) \<Longrightarrow> snd (fst (doRequest E c req w)) \<noteq> None \<Longrightarrow>
   Do_loop E c req attempt lastErr w =
     ((None, Some (exhausted c (snd (fst (doRequest E c req w))))), snd (doRequest E c req w))"
  by (subst Do_loop.simps) (auto simp: Let_def)

lemma Do_loop_retry:
  "attempt < MaxRetries (retryConfig c) \<Longrightarrow> snd (fst (doRequest E c req w)) \<noteq> None \<Longrightarrow>
   Do_loop E c req attempt lastErr w =
     Do_loop E c req (attempt + 1) (snd (fst (doRequest E c req w)))
       ((snd (doRequest E c req w))
          \<lparr>slept := slept (snd (doRequest E c req w))
                      @ [backoffDelay E (retryConfig c) attempt]\<rparr>)"
  by (subst Do_loop.simps) (auto simp: Let_def)

subsection \<open>One attempt\<close>

lemma doRequest_exclusive:
  "(fst (fst (doRequest E c req w)) = None) = (snd (fst (doRequest E c req w)) \<noteq> None)"
  by (simp add: doRequest_def Let_def split: sum.split option.split)

lemma doRequest_marshal_fails:
  "marshalBody E (Body req) = Inl e \<Longrightarrow>
   doRequest E c req w =
     ((None, Some (Wrapf ''failed to marshal body'' e)), w\<lparr>attempts := attempts w + 1\<rparr>)"
  by (simp add: doRequest_def Let_def)

lemma doRequest_create_fails:
  "marshalBody E (Body req) = Inr br \<Longrightarrow>
   newRequest E (background E) (Method req) (baseURL c @ URL req) = Some e \<Longrightarrow>
   doRequest E c req w =
     ((None, Some (Wrapf ''failed to create request'' e)), w\<lparr>attempts := attempts w + 1\<rparr>)"
  by (simp add: doRequest_def Let_def)

lemma doRequest_transport_fails:
  "marshalBody E (Body req) = Inr br \<Longrightarrow>
   newRequest E (background E) (Method req) (baseURL c @ URL req) = None \<Longrightarrow>
   roundTrip E (length (sent w)) (outgoing E c (background E) req br) = Inl e \<Longrightarrow>
   doRequest E c req w =
     ((None, Some (Wrapf ''request failed'' e)),
      w\<lparr>attempts := attempts w + 1,
        sent := sent w @ [outgoing E c (background E) req br]\<rparr>)"
  by (simp add: doRequest_def Let_def outgoing_def)

lemma doRequest_read_fails:
  "marshalBody E (Body req) = Inr br \<Longrightarrow>
   newRequest E (background E) (Method req) (baseURL c @ URL req) = None \<Longrightarrow>
   roundTrip E (length (sent w)) (outgoing E c (background E) req br) = Inr raw \<Longrightarrow>
   rBody raw = Inl e \<Longrightarrow>
   doRequest E c req w =
     ((None, Some (Wrapf ''failed to read response body'' e)),
      w\<lparr>attempts := attempts w + 1,
        sent := sent w @ [outgoing E c (background E) req br]\<rparr>)"
  by (simp add: doRequest_def Let_def outgoing_def)

lemma doRequest_succeeds:
  "marshalBody E (Body req) = Inr br \<Longrightarrow>
   newRequest E (background E) (Method req) (baseURL c @ URL req) = None \<Longrightarrow>
   roundTrip E (length (sent w)) (outgoing E c (background E) req br) = Inr raw \<Longrightarrow>
   rBody raw = Inr body \<Longrightarrow>
   doRequest E c req w =
     ((Some \<lparr> StatusCode = rStatus raw, RespHeaders = rHeader raw, RespBody = body \<rparr>, None),
      w\<lparr>attempts := attempts w + 1,
        sent := sent w @ [outgoing E c (background E) req br]\<rparr>)"
  by (simp add: doRequest_def Let_def outgoing_def)

lemma doRequest_buildError:
  "buildError E c req = Some err \<Longrightarrow>
   doRequest E c req w = ((None, Some err), w\<lparr>attempts := attempts w + 1\<rparr>)"
  by (auto simp: buildError_def doRequest_def Let_def split: sum.splits option.splits)

lemma requestHeader_breaker:
  "requestHeader E (c\<lparr>circuitBreaker := cb\<rparr>) req = requestHeader E c req"
  by (simp add: requestHeader_def)

lemma doRequest_breaker:
  "doRequest E (c\<lparr>circuitBreaker := cb\<rparr>) req w = doRequest E c req w"
  by (simp add: doRequest_def requestHeader_breaker Let_def split: sum.split option.split)

lemma doRequest_sent:
  "\<exists>new. sent (snd (doRequest E c req w)) = sent w @ new
     \<and> (\<forall>r\<in>set new. hHeader r = requestHeader E c req)"
  by (simp add: doRequest_def Let_def split: sum.split option.split)

lemma doRequest_attemptFailed:
  assumes "marshalBody E (Body req) = Inr br"
    and "newRequest E (background E) (Method req) (baseURL c @ URL req) = None"
    and "attemptFailed E (outgoing E c (background E) req br) (length (sent w))"
  shows "\<exists>err. doRequest E c req w =
      ((None, Some err),
       w\<lparr>attempts := attempts w + 1,
         sent := sent w @ [outgoing E c (background E) req br]\<rparr>)"
proof (cases "roundTrip E (length (sent w)) (outgoing E c (background E) req br)")
  case (Inl e)
  with assms show ?thesis by (simp add: doRequest_transport_fails)
next
  case (Inr raw)
  with assms(3) obtain e where "rBody raw = Inl e"
    by (cases "rBody raw") (simp_all add: attemptFailed_def)
  with Inr assms show ?thesis by (simp add: doRequest_read_fails)
qed

subsection \<open>The loop as a whole\<close>

lemma Do_loop_exclusive:
  "(fst (fst (Do_loop E c req a e w)) = None) = (snd (fst (Do_loop E c req a e w)) \<noteq> None)"
proof (induction E c req a e w rule: Do_loop.induct)
  case (1 E c req attempt lastErr w)
  consider (beyond) "\<not> attempt \<le> MaxRetries (retryConfig c)"
    | (ok) "attempt \<le> MaxRetries (retryConfig c)" "snd (fst (doRequest E c req w)) = None"
    | (last) "attempt = MaxRetries (retryConfig c)" "snd (fst (doRequest E c req w)) \<noteq> None"
    | (retry) "attempt < MaxRetries (retryConfig c)" "snd (fst (doRequest E c req w)) \<noteq> None"
    by linarith
  then show ?case
  proof cases
    case beyond
    then show ?thesis by (simp add: Do_loop_beyond)
  next
    case ok
    then show ?thesis using doRequest_exclusive [of E c req w] by (simp add: Do_loop_success)
  next
    case last
    then show ?thesis by (simp add: Do_loop_last)
  next
    case retry
    then have "attempt \<le> MaxRetries (retryConfig c)" "attempt \<noteq> MaxRetries (retryConfig c)"
      by simp_all
    from "1.IH" [OF this(1) refl retry(2) this(2)] retry show ?thesis
      by (simp add: Do_loop_retry)
  qed
qed

lemma upto_from: "a < n \<Longrightarrow> [a..n - 1] = a # [a + 1..n - 1]"
  by (simp add: upto_rec1)

text \<open>A transport that fails at every invocation: the loop runs to its last attempt.\<close>

lemma Do_loop_transport_fails:
  assumes mb: "marshalBody E (Body req) = Inr br"
    and nr: "newRequest E (background E) (Method req) (baseURL c @ URL req) = None"
    and fails: "\<And>k. isl (roundTrip E k (outgoing E c (background E) req br))"
  shows "a \<le> MaxRetries (retryConfig c) \<Longrightarrow> k = nat (MaxRetries (retryConfig c) - a) \<Longrightarrow>
    Do_loop E c req a e w =
      ((None, Some (exhausted c (Some (Wrapf ''request failed''
          (projl (roundTrip E (length (sent w) + k) (outgoing E c (background E) req br))))))),
       w\<lparr>attempts := attempts w + k + 1,
         sent := sent w @ replicate (k + 1) (outgoing E c (background E) req br),
         slept := slept w
           @ map (backoffDelay E (retryConfig c)) [a..MaxRetries (retryConfig c) - 1]\<rparr>)"
proof (induction k arbitrary: a e w)
  case 0
  then have last: "a = MaxRetries (retryConfig c)" by simp
  have rt: "roundTrip E (length (sent w)) (outgoing E c (background E) req br)
      = Inl (projl (roundTrip E (length (sent w)) (outgoing E c (background E) req br)))"
    using fails by simp
  show ?case
    unfolding last by (simp add: Do_loop_last [OF refl] doRequest_transport_fails [OF mb nr rt])
next
  case (Suc k)
  then have less: "a < MaxRetries (retryConfig c)"
    and k: "k = nat (MaxRetries (retryConfig c) - (a + 1))"
    and le: "a + 1 \<le> MaxRetries (retryConfig c)" by simp_all
  have rt: "roundTrip E (length (sent w)) (outgoing E c (background E) req br)
      = Inl (projl (roundTrip E (length (sent w)) (outgoing E c (background E) req br)))"
    using fails by simp
  show ?case
    by (simp add: Do_loop_retry [OF less] doRequest_transport_fails [OF mb nr rt]
        Suc.IH [OF le k] upto_from [OF less] replicate_app_Cons_same)
qed

text \<open>A request that cannot be built: every attempt of the loop fails the same way.\<close>

lemma Do_loop_build_fails:
  assumes build: "\<And>w. doRequest E c req w = ((None, Some err), w\<lparr>attempts := attempts w + 1\<rparr>)"
  shows "a \<le> MaxRetries (retryConfig c) \<Longrightarrow> k = nat (MaxRetries (retryConfig c) - a) \<Longrightarrow>
    Do_loop E c req a e w =
      ((None, Some (exhausted c (Some err))),
       w\<lparr>attempts := attempts w + k + 1,
         slept := slept w
           @ map (backoffDelay E (retryConfig c)) [a..MaxRetries (retryConfig c) - 1]\<rparr>)"
proof (induction k arbitrary: a e w)
  case 0
  then have last: "a = MaxRetries (retryConfig c)" by simp
  show ?case
    unfolding last by (simp add: Do_loop_last [OF refl] build)
next
  case (Suc k)
  then have less: "a < MaxRetries (retryConfig c)"
    and k: "k = nat (MaxRetries (retryConfig c) - (a + 1))"
    and le: "a + 1 \<le> MaxRetries (retryConfig c)" by simp_all
  show ?case
    by (simp add: Do_loop_retry [OF less] build Suc.IH [OF le k] upto_from [OF less])
qed

text \<open>Attempts that fail, then one that succeeds: the loop returns the response of that one.\<close>

lemma Do_loop_fails_then_succeeds:
  assumes mb: "marshalBody E (Body req) = Inr br"
    and nr: "newRequest E (background E) (Method req) (baseURL c @ URL req) = None"
    and ok: "rBody raw = Inr body"
  shows "\<forall>j<k. attemptFailed E (outgoing E c (background E) req br) (length (sent w) + j) \<Longrightarrow>
    roundTrip E (length (sent w) + k) (outgoing E c (background E) req br) = Inr raw \<Longrightarrow>
    a + int k \<le> MaxRetries (retryConfig c) \<Longrightarrow>
    fst (Do_loop E c req a e w) =
      (Some \<lparr> StatusCode = rStatus raw, RespHeaders = rHeader raw, RespBody = body \<rparr>, None)"
proof (induction k arbitrary: a e w)
  case 0
  then have "doRequest E c req w =
      ((Some \<lparr> StatusCode = rStatus raw, RespHeaders = rHeader raw, RespBody = body \<rparr>, None),
       w\<lparr>attempts := attempts w + 1,
         sent := sent w @ [outgoing E c (background E) req br]\<rparr>)"
    using mb nr ok by (intro doRequest_succeeds) simp_all
  with 0 show ?case by (simp add: Do_loop_success)
next
  case (Suc k)
  let ?hr = "outgoing E c (background E) req br"
  from Suc.prems(1) have "attemptFailed E ?hr (length (sent w))"
    by (metis add.right_neutral zero_less_Suc)
  with mb nr obtain err where failed: "doRequest E c req w =
      ((None, Some err), w\<lparr>attempts := attempts w + 1, sent := sent w @ [?hr]\<rparr>)"
    using doRequest_attemptFailed by blast
  let ?w = "w\<lparr>attempts := attempts w + 1, sent := sent w @ [?hr],
      slept := slept w @ [backoffDelay E (retryConfig c) a]\<rparr>"
  from Suc.prems(3) have less: "a < MaxRetries (retryConfig c)"
    and le: "a + 1 + int k \<le> MaxRetries (retryConfig c)" by simp_all
  have later: "\<forall>j<k. attemptFailed E ?hr (length (sent ?w) + j)"
    using Suc.prems(1) by (auto dest: spec [of _ "Suc _"])
  have last: "roundTrip E (length (sent ?w) + k) ?hr = Inr raw"
    using Suc.prems(2) by simp
  from Suc.IH [OF later last le]
  have "fst (Do_loop E c req (a + 1) (Some err) ?w) =
      (Some \<lparr> StatusCode = rStatus raw, RespHeaders = rHeader raw, RespBody = body \<rparr>, None)" .
  with less failed show ?case
    by (simp add: Do_loop_retry)
qed

lemma Do_loop_breaker:
  "Do_loop E (c\<lparr>circuitBreaker := cb\<rparr>) req a e w = Do_loop E c req a e w"
proof (induction E c req a e w rule: Do_loop.induct)
  case (1 E c req attempt lastErr w)
  let ?c = "c\<lparr>circuitBreaker := cb\<rparr>"
  consider (beyond) "\<not> attempt \<le> MaxRetries (retryConfig c)"
    | (ok) "attempt \<le> MaxRetries (retryConfig c)" "snd (fst (doRequest E c req w)) = None"
    | (last) "attempt = MaxRetries (retryConfig c)" "snd (fst (doRequest E c req w)) \<noteq> None"
    | (retry) "attempt < MaxRetries (retryConfig c)" "snd (fst (doRequest E c req w)) \<noteq> None"
    by linarith
  then show ?case
  proof cases
    case beyond
    then show ?thesis by (simp add: Do_loop_beyond exhausted_def)
  next
    case ok
    then show ?thesis
      by (simp add: Do_loop_success [of _ c] Do_loop_success [of _ ?c] doRequest_breaker)
  next
    case last
    then show ?thesis
      by (simp add: Do_loop_last [of _ c] Do_loop_last [of _ ?c] doRequest_breaker exhausted_def)
  next
    case retry
    then have "attempt \<le> MaxRetries (retryConfig c)" "attempt \<noteq> MaxRetries (retryConfig c)"
      by simp_all
    from "1.IH" [OF this(1) refl retry(2) this(2)] retry show ?thesis
      by (simp add: Do_loop_retry [of _ c] Do_loop_retry [of _ ?c] doRequest_breaker)
  qed
qed

lemma Do_loop_sent:
  "\<exists>new. sent (snd (Do_loop E c req a e w)) = sent w @ new
     \<and> (\<forall>r\<in>set new. hHeader r = requestHeader E c req)"
proof (induction E c req a e w rule: Do_loop.induct)
  case (1 E c req attempt lastErr w)
  obtain new where new: "sent (snd (doRequest E c req w)) = sent w @ new"
    "\<forall>r\<in>set new. hHeader r = requestHeader E c req"
    using doRequest_sent by blast
  consider (beyond) "\<not> attempt \<le> MaxRetries (retryConfig c)"
    | (ok) "attempt \<le> MaxRetries (retryConfig c)" "snd (fst (doRequest E c req w)) = None"
    | (last) "attempt = MaxRetries (retryConfig c)" "snd (fst (doRequest E c req w)) \<noteq> None"
    | (retry) "attempt < MaxRetries (retryConfig c)" "snd (fst (doRequest E c req w)) \<noteq> None"
    by linarith
  then show ?case
  proof cases
    case beyond
    then show ?thesis by (simp add: Do_loop_beyond)
  next
    case ok
    with new show ?thesis by (simp add: Do_loop_success)
  next
    case last
    with new show ?thesis by (simp add: Do_loop_last)
  next
    case retry
    then have "attempt \<le> MaxRetries (retryConfig c)" "attempt \<noteq> MaxRetries (retryConfig c)"
      by simp_all
    from "1.IH" [OF this(1) refl retry(2) this(2)]
    obtain more where more:
      "sent (snd (Do_loop E c req (attempt + 1) (snd (fst (doRequest E c req w)))
          ((snd (doRequest E c req w))
            \<lparr>slept := slept (snd (doRequest E c req w))
               @ [backoffDelay E (retryConfig c) attempt]\<rparr>))) = (sent w @ new) @ more"
      "\<forall>r\<in>set more. hHeader r = requestHeader E c req"
      using new(1) by auto
    have "\<forall>r\<in>set (new @ more). hHeader r = requestHeader E c req"
      using new(2) more(2) by auto
    with more(1) show ?thesis
      unfolding Do_loop_retry [OF retry] append_assoc by blast
  qed
qed

lemma int64_id: "- (2 ^ 63) \<le> x \<Longrightarrow> x < 2 ^ 63 \<Longrightarrow> int64 x = x"
  by (simp add: int64_def)

lemma world3_eval:
  "world3 = \<lparr> sent = replicate 3 (outgoing (goEnv refused) singleShot ''context.Background'' getReq None),
              slept = [], attempts = 3 \<rparr>"
  by (simp add: eval_defs outgoing_def numeral_3_eq_3)

subsection \<open>Headers\<close>




subsection \<open>Backoff\<close>









subsection \<open>The token channel\<close>

lemma fill_full:
  "0 \<le> i \<Longrightarrow> i \<le> burst \<Longrightarrow> length (buf ch) = nat i \<Longrightarrow> cap ch = nat burst \<Longrightarrow>
   k = nat (burst - i) \<Longrightarrow>
   \<exists>ch'. fill clock burst i ch = Some ch' \<and> length (buf ch') = nat burst \<and> cap ch' = nat burst"
proof (induction k arbitrary: i ch)
  case 0
  then show ?case by (subst fill.simps) simp
next
  case (Suc k)
  then have less: "i < burst" by simp
  let ?ch = "ch\<lparr>buf := buf ch @ [clock i]\<rparr>"
  have snd: "send ch (clock i) = Some ?ch"
    using Suc.prems less by (simp add: send_def)
  have "\<exists>ch'. fill clock burst (i + 1) ?ch = Some ch' \<and> length (buf ch') = nat burst
      \<and> cap ch' = nat burst"
    using Suc.prems less by (intro Suc.IH) (simp_all add: nat_add_distrib)
  then show ?case
    using less snd by (subst fill.simps) simp
qed

lemma step_invariant:
  assumes "step rl rl'"
    and "length (buf (requests rl)) + length (refills rl) = cap (requests rl)"
  shows "length (buf (requests rl')) + length (refills rl') = cap (requests rl')
    \<and> cap (requests rl') = cap (requests rl)"
  using assms
proof cases
  case (wait now)
  then show ?thesis
    using assms(2) by (auto simp: Wait_def recv_def split: list.splits)
next
  case (refill k)
  then show ?thesis
    using assms(2) by (auto simp: replenish_def send_def split: if_splits)
qed

lemma reachable_invariant:
  assumes "reachable rl0 rl"
    and "length (buf (requests rl0)) + length (refills rl0) = cap (requests rl0)"
  shows "length (buf (requests rl)) + length (refills rl) = cap (requests rl)
    \<and> cap (requests rl) = cap (requests rl0)"
  using assms
proof (induction rule: reachable.induct)
  case init
  then show ?case by simp
next
  case (next_step rl rl')
  then show ?case using step_invariant [of rl rl'] by simp
qed

section \<open>The claims\<close>

subsection \<open>C1: the circuit breaker\<close>

text \<open>
  C1 says that every attempt first asks the breaker and that, once \<open>MaxFailures\<close>
  consecutive transport failures have happened, the next call is cut short without a
  transport invocation. The client stores the breaker configuration and never reads it.
  What holds instead (C1, amended): \<open>Do\<close> behaves the same under every breaker
  configuration, and against a transport that fails at every invocation a call whose
  request can be built performs \<open>MaxRetries + 1\<close> transport invocations from every
  history \<open>w\<close>, however many failures \<open>w\<close> already holds.
\<close>

theorem Do_never_consults_breaker:
  "Do E (c\<lparr>circuitBreaker := cb\<rparr>) req w = Do E c req w \<and>
   (marshalBody E (Body req) = Inr br \<and>
    newRequest E (background E) (Method req) (baseURL c @ URL req) = None \<and>
    (\<forall>k r. isl (roundTrip E k r)) \<and> 0 \<le> MaxRetries (retryConfig c) \<longrightarrow>
    length (sent (snd (Do E (c\<lparr>circuitBreaker := cb\<rparr>) req w)))
      = length (sent w) + nat (MaxRetries (retryConfig c)) + 1)"
proof (intro conjI impI)
  show same: "Do E (c\<lparr>circuitBreaker := cb\<rparr>) req w = Do E c req w"
    by (simp add: Do_def Do_loop_breaker)
  assume h: "marshalBody E (Body req) = Inr br \<and>
    newRequest E (background E) (Method req) (baseURL c @ URL req) = None \<and>
    (\<forall>k r. isl (roundTrip E k r)) \<and> 0 \<le> MaxRetries (retryConfig c)"
  then have "Do_loop E c req 0 None w =
      ((None, Some (exhausted c (Some (Wrapf ''request failed''
          (projl (roundTrip E (length (sent w) + nat (MaxRetries (retryConfig c) - 0))
             (outgoing E c (background E) req br))))))),
       w\<lparr>attempts := attempts w + nat (MaxRetries (retryConfig c) - 0) + 1,
         sent := sent w @ replicate (nat (MaxRetries (retryConfig c) - 0) + 1)
           (outgoing E c (background E) req br),
         slept := slept w
           @ map (backoffDelay E (retryConfig c)) [0..MaxRetries (retryConfig c) - 1]\<rparr>)"
    by (intro Do_loop_transport_fails) simp_all
  then show "length (sent (snd (Do E (c\<lparr>circuitBreaker := cb\<rparr>) req w)))
      = length (sent w) + nat (MaxRetries (retryConfig c)) + 1"
    unfolding same by (simp add: Do_def)
qed

theorem Do_never_consults_breaker_witness:
  "length (sent world3) = 3 \<and>
   length (sent (snd (Do (goEnv refused) (singleShot\<lparr>circuitBreaker := guarded\<rparr>) getReq world3)))
     = 4"
proof -
  have hyps: "marshalBody (goEnv refused) (Body getReq) = Inr None \<and>
      newRequest (goEnv refused) (background (goEnv refused)) (Method getReq)
        (baseURL singleShot @ URL getReq) = None \<and>
      (\<forall>k r. isl (roundTrip (goEnv refused) k r)) \<and> 0 \<le> MaxRetries (retryConfig singleShot)"
    by (simp add: eval_defs)
  have len: "length (sent world3) = 3"
    by (simp add: world3_eval)
  have zero: "MaxRetries (retryConfig singleShot) = 0"
    by (simp add: eval_defs)
  from Do_never_consults_breaker [where E = "goEnv refused" and c = singleShot and cb = guarded
      and req = getReq and w = world3 and br = None] hyps
  have "length (sent (snd (Do (goEnv refused) (singleShot\<lparr>circuitBreaker := guarded\<rparr>) getReq
      world3))) = length (sent world3) + nat (MaxRetries (retryConfig singleShot)) + 1"
    by blast
  with len zero show ?thesis by simp
qed

text \<open>
  The scenario of C1 itself: \<open>MaxFailures = 3\<close>, three failed calls, and the fourth call
  still reaches the transport and ends with the retry error.
\<close>

theorem breaker_counterexample:
  "length (sent world3) = 3 \<and>
   MaxFailures (circuitBreaker singleShot) = 3 \<and>
   length (sent (snd (Do (goEnv refused) singleShot getReq world3))) = 4 \<and>
   fst (Do (goEnv refused) singleShot getReq world3) =
     (None, Some (AttemptsErr 1
        (Some (Wrapf ''request failed'' (External ''connection refused'')))))"
  by (simp add: eval_defs)

subsection \<open>C2: retry exhaustion\<close>

text \<open>
  C2: with \<open>MaxRetries = n\<close>, \<open>n \<ge> 0\<close>, a request that can be built and a transport that
  fails at every invocation, \<open>Do\<close> invokes the transport exactly \<open>n + 1\<close> times and
  returns the retry error that wraps the error of the last invocation and carries the
  attempt count. The count is the Go expression \<open>MaxRetries + 1\<close>, which is \<open>n + 1\<close> for
  every \<open>n\<close> below the largest \<open>int\<close>.
\<close>

theorem Do_retries_exhausted:
  assumes "marshalBody E (Body req) = Inr br"
    and "newRequest E (background E) (Method req) (baseURL c @ URL req) = None"
    and "\<forall>k r. isl (roundTrip E k r)"
    and "MaxRetries (retryConfig c) = n" and "0 \<le> n"
  shows "length (sent (snd (Do E c req w))) = length (sent w) + nat n + 1 \<and>
    fst (Do E c req w) =
      (None, Some (AttemptsErr (int64 (n + 1))
         (Some (Wrapf ''request failed''
            (projl (roundTrip E (length (sent w) + nat n)
               (last (sent (snd (Do E c req w)))))))))) \<and>
    (n < 2 ^ 63 - 1 \<longrightarrow> int64 (n + 1) = n + 1)"
proof -
  have "Do_loop E c req 0 None w =
      ((None, Some (exhausted c (Some (Wrapf ''request failed''
          (projl (roundTrip E (length (sent w) + nat (MaxRetries (retryConfig c) - 0))
             (outgoing E c (background E) req br))))))),
       w\<lparr>attempts := attempts w + nat (MaxRetries (retryConfig c) - 0) + 1,
         sent := sent w @ replicate (nat (MaxRetries (retryConfig c) - 0) + 1)
           (outgoing E c (background E) req br),
         slept := slept w
           @ map (backoffDelay E (retryConfig c)) [0..MaxRetries (retryConfig c) - 1]\<rparr>)"
    using assms by (intro Do_loop_transport_fails) simp_all
  then show ?thesis
    using assms(4, 5) by (simp add: Do_def exhausted_def int64_id)
qed

theorem Do_retries_exhausted_witness:
  "length (sent (snd (Do (goEnv refused) demoClient getReq world0))) = 4 \<and>
   fst (Do (goEnv refused) demoClient getReq world0) =
     (None, Some (AttemptsErr 4
        (Some (Wrapf ''request failed'' (External ''connection refused'')))))"
proof -
  have 1: "marshalBody (goEnv refused) (Body getReq) = Inr None"
    and 2: "newRequest (goEnv refused) (background (goEnv refused)) (Method getReq)
        (baseURL demoClient @ URL getReq) = None"
    and 3: "\<forall>k r. isl (roundTrip (goEnv refused) k r)"
    and 4: "MaxRetries (retryConfig demoClient) = 3" and 5: "(0::int) \<le> 3"
    by (simp_all add: eval_defs)
  from Do_retries_exhausted [OF 1 2 3 4 5, of world0] show ?thesis
    by (simp add: world0_def int64_def goEnv_def refused_def)
qed

subsection \<open>C3: the backoff delay\<close>




subsection \<open>C4: requests that cannot be built\<close>

text \<open>
  C4 says that a build error is returned after a single attempt and without a delay.
  \<open>Do\<close> does not tell a build error from any other failed attempt. What holds instead
  (C4, amended): when the request cannot be built and \<open>MaxRetries = n\<close>, \<open>n \<ge> 0\<close>,
  \<open>Do\<close> makes \<open>n + 1\<close> build attempts, sleeps the \<open>n\<close> backoff delays between them, hands
  nothing to the transport and returns the retry error that wraps the build error; only
  for \<open>n = 0\<close> is that a single attempt with no delay.
\<close>

theorem Do_retries_build_error:
  assumes "buildError E c req = Some err"
    and "MaxRetries (retryConfig c) = n" and "0 \<le> n"
  shows "Do E c req w =
    ((None, Some (AttemptsErr (int64 (n + 1)) (Some err))),
     w\<lparr>attempts := attempts w + nat n + 1,
       slept := slept w @ map (backoffDelay E (retryConfig c)) [0..n - 1]\<rparr>)"
proof -
  have "Do_loop E c req 0 None w =
      ((None, Some (exhausted c (Some err))),
       w\<lparr>attempts := attempts w + nat (MaxRetries (retryConfig c) - 0) + 1,
         slept := slept w
           @ map (backoffDelay E (retryConfig c)) [0..MaxRetries (retryConfig c) - 1]\<rparr>)"
    using assms by (intro Do_loop_build_fails doRequest_buildError) simp_all
  then show ?thesis
    using assms(2) by (simp add: Do_def exhausted_def)
qed

theorem Do_retries_build_error_witness:
  "Do (goEnv refused) demoClient chanReq world0 =
     ((None, Some (AttemptsErr 4 (Some (Wrapf ''failed to marshal body''
         (External ''json: unsupported type: chan int''))))),
      \<lparr> sent = [], slept = [1000000000, 2000000000, 4000000000], attempts = 4 \<rparr>)"
proof -
  have 1: "buildError (goEnv refused) demoClient chanReq
      = Some (Wrapf ''failed to marshal body'' (External ''json: unsupported type: chan int''))"
    and 2: "MaxRetries (retryConfig demoClient) = 3" and 3: "(0::int) \<le> 3"
    by (simp_all add: buildError_def eval_defs)
  have upto: "[0..(2::int)] = [0, 1, 2]"
    by (simp add: upto_rec1)
  from Do_retries_build_error [OF 1 2 3, of world0] show ?thesis
    by (simp add: upto eval_defs)
qed

text \<open>
  With the default configuration a body that cannot be marshalled is built four times,
  with delays of one, two and four seconds.
\<close>

theorem build_error_counterexample:
  "attempts (snd (Do (goEnv refused) demoClient chanReq world0)) = 4 \<and>
   slept (snd (Do (goEnv refused) demoClient chanReq world0))
     = [1000000000, 2000000000, 4000000000]"
  by (simp add: eval_defs)

subsection \<open>C5: the automatic content type\<close>

text \<open>
  C5 says that a content type supplied by the caller survives. The content type is set
  after the caller's headers and replaces them. What holds instead (C5, amended): every
  request that \<open>Do\<close> hands to the transport for a request with a body carries
  \<open>Content-Type: application/json\<close>, whatever the default headers and the request headers
  say.
\<close>

theorem content_type_forced:
  assumes "Body req \<noteq> None"
  shows "\<exists>new. sent (snd (Do E c req w)) = sent w @ new \<and>
    (\<forall>r\<in>set new. hHeader r (canonicalKey E ''Content-Type'') = Some [''application/json''])"
proof -
  have "requestHeader E c req (canonicalKey E ''Content-Type'') = Some [''application/json'']"
    using assms by (simp add: requestHeader_def headerSet_def)
  with Do_loop_sent [of E c req 0 None w] show ?thesis
    by (auto simp: Do_def)
qed

theorem content_type_forced_witness:
  "Body textReq = Some (JString ''hi'') \<and>
   map (\<lambda>r. hHeader r ''Content-Type'')
     (sent (snd (Do (goEnv (answers 200 ''{}'')) headedClient textReq world0)))
   = [Some [''application/json'']]"
proof -
  let ?E = "goEnv (answers 200 ''{}'')"
  have body: "Body textReq = Some (JString ''hi'')"
    by (simp add: textReq_def)
  then have given: "Body textReq \<noteq> None"
    by simp
  have key: "canonicalKey ?E ''Content-Type'' = ''Content-Type''"
    by (simp add: eval_defs)
  have len: "length (sent (snd (Do ?E headedClient textReq world0))) = 1"
    by (simp add: eval_defs)
  from content_type_forced [OF given, of ?E headedClient world0]
  obtain new where new: "sent (snd (Do ?E headedClient textReq world0)) = new"
    "\<forall>r\<in>set new. hHeader r ''Content-Type'' = Some [''application/json'']"
    unfolding key by (auto simp: world0_def)
  from len new(1) obtain r where "new = [r]"
    by (cases new) auto
  with new body show ?thesis by simp
qed

text \<open>The caller asks for \<open>text/plain\<close> and the transport sees \<open>application/json\<close>.\<close>

theorem content_type_counterexample:
  "map (\<lambda>r. hHeader r ''Content-Type'')
     (sent (snd (Do (goEnv (answers 200 ''{}'')) demoClient textReq world0)))
   = [Some [''application/json'']]"
  by (simp add: eval_defs)

subsection \<open>C6: the JSON layer\<close>

text \<open>
  C6 says that a successful transport round trip with a status below 400 has its body
  decoded. A response whose body cannot be read is a failed attempt, retried like a
  failed transport call, and nothing of it is decoded. What holds instead (C6, amended):
  when, after any number of failed attempts within \<open>MaxRetries\<close>, the transport call of an
  attempt succeeds and the body of its response is read, \<open>JSON\<close> returns an error and
  leaves the destination as it was for a status of 400 or more, and returns what decoding
  the body into the destination returns for a status below 400; and so do \<open>GetJSON\<close>,
  \<open>PostJSON\<close>, \<open>PutJSON\<close> and \<open>DeleteJSON\<close> for the request they build.
\<close>

theorem JSON_status_gate:
  assumes "marshalBody E (Body req) = Inr br"
    and "newRequest E (background E) (Method req) (baseURL c @ URL req) = None"
    and "\<forall>j<k. attemptFailed E (outgoing E c (background E) req br) (length (sent w) + j)"
    and "int k \<le> MaxRetries (retryConfig c)"
    and "roundTrip E (length (sent w) + k) (outgoing E c (background E) req br) = Inr raw"
    and "rBody raw = Inr body"
  shows "let result = (if 400 \<le> rStatus raw
                       then Return (Some (HTTPError (rStatus raw)), dest)
                       else Return (unmarshal E body dest))
    in fst (JSON E c req dest w) = result \<and>
       (req = \<lparr> Method = ''GET'', URL = url, Headers = hs, Body = None, Query = [] \<rparr> \<longrightarrow>
          fst (GetJSON E c url dest hs w) = result) \<and>
       (req = \<lparr> Method = ''POST'', URL = url, Headers = hs, Body = b, Query = [] \<rparr> \<longrightarrow>
          fst (PostJSON E c url b dest hs w) = result) \<and>
       (req = \<lparr> Method = ''PUT'', URL = url, Headers = hs, Body = b, Query = [] \<rparr> \<longrightarrow>
          fst (PutJSON E c url b dest hs w) = result) \<and>
       (req = \<lparr> Method = ''DELETE'', URL = url, Headers = hs, Body = None, Query = [] \<rparr> \<longrightarrow>
          fst (DeleteJSON E c url dest hs w) = result)"
proof -
  have "fst (Do_loop E c req 0 None w) =
      (Some \<lparr> StatusCode = rStatus raw, RespHeaders = rHeader raw, RespBody = body \<rparr>, None)"
    using assms by (intro Do_loop_fails_then_succeeds) simp_all
  then have "fst (JSON E c req dest w) =
      (if 400 \<le> rStatus raw then Return (Some (HTTPError (rStatus raw)), dest)
       else Return (unmarshal E body dest))"
    by (simp add: JSON_def Do_def Let_def)
  then show ?thesis
    by (auto simp: Let_def GetJSON_def PostJSON_def PutJSON_def DeleteJSON_def)
qed

theorem JSON_status_gate_witness:
  "fst (GetJSON (goEnv (answers 404 ''{}'')) demoClient ''/items'' ''null'' [] world0)
     = Return (Some (HTTPError 404), ''null'') \<and>
   fst (JSON (goEnv recovering) demoClient getReq ''null'' world0) = Return (None, ''{}'')"
proof -
  let ?E = "goEnv (answers 404 ''{}'')" and ?F = "goEnv recovering"
  let ?missing = "\<lparr> rStatus = 404, rHeader = Map.empty, rBody = Inr ''{}'' \<rparr>"
  let ?found = "\<lparr> rStatus = 200, rHeader = Map.empty, rBody = Inr ''{}'' \<rparr>"
  have e: "marshalBody ?E (Body getReq) = Inr None"
    "newRequest ?E (background ?E) (Method getReq) (baseURL demoClient @ URL getReq) = None"
    "\<forall>j<0. attemptFailed ?E (outgoing ?E demoClient (background ?E) getReq None)
        (length (sent world0) + j)"
    "int 0 \<le> MaxRetries (retryConfig demoClient)"
    "roundTrip ?E (length (sent world0) + 0)
        (outgoing ?E demoClient (background ?E) getReq None) = Inr ?missing"
    "rBody ?missing = Inr ''{}''"
    by (simp_all add: eval_defs)
  have f: "marshalBody ?F (Body getReq) = Inr None"
    "newRequest ?F (background ?F) (Method getReq) (baseURL demoClient @ URL getReq) = None"
    "\<forall>j<2. attemptFailed ?F (outgoing ?F demoClient (background ?F) getReq None)
        (length (sent world0) + j)"
    "int 2 \<le> MaxRetries (retryConfig demoClient)"
    "roundTrip ?F (length (sent world0) + 2)
        (outgoing ?F demoClient (background ?F) getReq None) = Inr ?found"
    "rBody ?found = Inr ''{}''"
    by (simp_all add: eval_defs)
  have get: "getReq = \<lparr> Method = ''GET'', URL = ''/items'', Headers = [], Body = None,
      Query = [] \<rparr>"
    by (simp add: getReq_def)
  from JSON_status_gate [OF e, where dest = "''null''" and url = "''/items''" and hs = "[]"] get
  have "fst (GetJSON ?E demoClient ''/items'' ''null'' [] world0)
      = Return (Some (HTTPError 404), ''null'')"
    by (simp add: Let_def)
  moreover
  from JSON_status_gate [OF f, where dest = "''null''"]
  have "fst (JSON ?F demoClient getReq ''null'' world0) = Return (None, ''{}'')"
    by (simp add: Let_def goEnv_def jsonUnmarshal_def)
  ultimately show ?thesis by blast
qed

text \<open>
  The transport answers 200 every time and the body cannot be read: \<open>JSON\<close> returns the
  retry error after four transport calls and decodes nothing.
\<close>

theorem unread_body_counterexample:
  "fst (JSON (goEnv (unreadable 200)) demoClient getReq ''null'' world0)
     = Return (Some (AttemptsErr 4
         (Some (Wrapf ''failed to read response body'' (External ''unexpected EOF'')))),
       ''null'') \<and>
   length (sent (snd (JSON (goEnv (unreadable 200)) demoClient getReq ''null'' world0))) = 4"
  by (simp add: JSON_def eval_defs)

subsection \<open>C7: merging the headers\<close>




subsection \<open>C8: the token pool\<close>

text \<open>
  C8: for a burst capacity \<open>B \<ge> 0\<close>, \<open>NewRateLimiter\<close> returns a limiter holding exactly
  \<open>B\<close> tokens, and in every state reached from it by \<open>Wait\<close> and replenishment steps the
  number of tokens is at least 0 and at most \<open>B\<close>.
\<close>

theorem tokens_bounded:
  assumes "0 \<le> burst"
  shows "\<exists>rl0. NewRateLimiter clock r burst = Some rl0 \<and> tokens rl0 = burst \<and>
    (\<forall>rl. reachable rl0 rl \<longrightarrow> 0 \<le> tokens rl \<and> tokens rl \<le> burst)"
proof -
  from fill_full [of 0 burst "\<lparr> buf = [], cap = nat burst \<rparr>" "nat (burst - 0)" clock] assms
  obtain ch where ch: "fill clock burst 0 \<lparr> buf = [], cap = nat burst \<rparr> = Some ch"
    "length (buf ch) = nat burst" "cap ch = nat burst"
    by auto
  let ?rl0 = "\<lparr> requests = ch, rate = r, refills = [] \<rparr>"
  have new: "NewRateLimiter clock r burst = Some ?rl0"
    using assms ch(1) by (simp add: NewRateLimiter_def)
  have full: "tokens ?rl0 = burst"
    using assms ch(2) by (simp add: tokens_def)
  have "0 \<le> tokens rl \<and> tokens rl \<le> burst" if "reachable ?rl0 rl" for rl
  proof -
    from reachable_invariant [OF that] ch
    have "length (buf (requests rl)) + length (refills rl) = nat burst"
      by simp
    with assms show ?thesis by (simp add: tokens_def)
  qed
  with new full show ?thesis by blast
qed

theorem tokens_bounded_witness:
  "NewRateLimiter (\<lambda>i. i) second 2 = Some twoTokens \<and> tokens twoTokens = 2 \<and>
   reachable twoTokens oneTaken \<and> 0 \<le> tokens oneTaken \<and> tokens oneTaken \<le> 2"
proof -
  have new: "NewRateLimiter (\<lambda>i. i) second 2 = Some twoTokens"
    by (simp add: NewRateLimiter_def fill.simps send_def twoTokens_def)
  have "Wait 7 twoTokens = Some oneTaken"
    by (simp add: Wait_def recv_def twoTokens_def oneTaken_def)
  then have "step twoTokens oneTaken"
    by (rule step.wait)
  with reachable.init [of twoTokens] have reach: "reachable twoTokens oneTaken"
    by (rule reachable.next_step)
  have "(0::int) \<le> 2" by simp
  from tokens_bounded [OF this, of "\<lambda>i. i" second] new reach
  have "tokens twoTokens = 2 \<and> 0 \<le> tokens oneTaken \<and> tokens oneTaken \<le> 2"
    by auto
  with new reach show ?thesis by blast
qed

subsection \<open>C9: response or error\<close>

text \<open>
  C9 says that a successful transport call ends the loop. It does so only if the body of
  the response can be read as well; if not, the attempt has failed and is retried. What
  holds instead (C9, amended): \<open>Do\<close> returns a nil response exactly when it returns a
  non-nil error; and at every attempt of the loop (index \<open>attempt\<close> within \<open>MaxRetries\<close>,
  history \<open>w\<close>), if the transport call of that attempt succeeds and the body of its
  response is read, the loop returns that response at once, whatever the status code:
  that attempt is the last one started, its request the last one sent, and no delay
  follows.
\<close>

theorem Do_response_xor_error:
  "((fst (fst (Do E c req w)) = None) = (snd (fst (Do E c req w)) \<noteq> None)) \<and>
   (attempt \<le> MaxRetries (retryConfig c) \<and>
    marshalBody E (Body req) = Inr br \<and>
    newRequest E (background E) (Method req) (baseURL c @ URL req) = None \<and>
    roundTrip E (length (sent w)) (outgoing E c (background E) req br) = Inr raw \<and>
    rBody raw = Inr body \<longrightarrow>
    Do_loop E c req attempt lastErr w =
      ((Some \<lparr> StatusCode = rStatus raw, RespHeaders = rHeader raw, RespBody = body \<rparr>, None),
       w\<lparr>attempts := attempts w + 1,
         sent := sent w @ [outgoing E c (background E) req br]\<rparr>))"
proof (intro conjI impI)
  show "(fst (fst (Do E c req w)) = None) = (snd (fst (Do E c req w)) \<noteq> None)"
    unfolding Do_def by (rule Do_loop_exclusive)
next
  assume h: "attempt \<le> MaxRetries (retryConfig c) \<and>
    marshalBody E (Body req) = Inr br \<and>
    newRequest E (background E) (Method req) (baseURL c @ URL req) = None \<and>
    roundTrip E (length (sent w)) (outgoing E c (background E) req br) = Inr raw \<and>
    rBody raw = Inr body"
  then have ok: "doRequest E c req w =
      ((Some \<lparr> StatusCode = rStatus raw, RespHeaders = rHeader raw, RespBody = body \<rparr>, None),
       w\<lparr>attempts := attempts w + 1,
         sent := sent w @ [outgoing E c (background E) req br]\<rparr>)"
    by (intro doRequest_succeeds) simp_all
  from h have "attempt \<le> MaxRetries (retryConfig c)" by simp
  then show "Do_loop E c req attempt lastErr w =
      ((Some \<lparr> StatusCode = rStatus raw, RespHeaders = rHeader raw, RespBody = body \<rparr>, None),
       w\<lparr>attempts := attempts w + 1,
         sent := sent w @ [outgoing E c (background E) req br]\<rparr>)"
    by (simp add: Do_loop_success ok)
qed

theorem Do_response_xor_error_witness:
  "fst (Do (goEnv (answers 500 ''boom'')) demoClient getReq world0)
     = (Some \<lparr> StatusCode = 500, RespHeaders = Map.empty, RespBody = ''boom'' \<rparr>, None) \<and>
   length (sent (snd (Do (goEnv (answers 500 ''boom'')) demoClient getReq world0))) = 1 \<and>
   fst (fst (Do (goEnv refused) demoClient getReq world0)) = None \<and>
   snd (fst (Do (goEnv refused) demoClient getReq world0)) \<noteq> None"
proof -
  let ?E = "goEnv (answers 500 ''boom'')"
  let ?raw = "\<lparr> rStatus = 500, rHeader = Map.empty, rBody = Inr ''boom'' \<rparr>"
  have hyps: "0 \<le> MaxRetries (retryConfig demoClient) \<and>
      marshalBody ?E (Body getReq) = Inr None \<and>
      newRequest ?E (background ?E) (Method getReq) (baseURL demoClient @ URL getReq) = None \<and>
      roundTrip ?E (length (sent world0)) (outgoing ?E demoClient (background ?E) getReq None)
        = Inr ?raw \<and>
      rBody ?raw = Inr ''boom''"
    by (simp add: eval_defs)
  from Do_response_xor_error [where E = ?E and c = demoClient and req = getReq and w = world0
      and attempt = 0 and br = None and raw = ?raw and body = "''boom''" and lastErr = None] hyps
  have "Do ?E demoClient getReq world0 =
      ((Some \<lparr> StatusCode = 500, RespHeaders = Map.empty, RespBody = ''boom'' \<rparr>, None),
       world0\<lparr>attempts := attempts world0 + 1,
         sent := sent world0 @ [outgoing ?E demoClient (background ?E) getReq None]\<rparr>)"
    unfolding Do_def by simp
  then have ok: "fst (Do ?E demoClient getReq world0)
      = (Some \<lparr> StatusCode = 500, RespHeaders = Map.empty, RespBody = ''boom'' \<rparr>, None)"
    "length (sent (snd (Do ?E demoClient getReq world0))) = 1"
    by (simp_all add: world0_def)
  have failed: "snd (fst (Do (goEnv refused) demoClient getReq world0)) \<noteq> None"
    by (simp add: eval_defs)
  with Do_response_xor_error [where E = "goEnv refused" and c = demoClient and req = getReq
      and w = world0]
  have "fst (fst (Do (goEnv refused) demoClient getReq world0)) = None"
    by blast
  with ok failed show ?thesis by blast
qed

text \<open>
  The transport answers every call and no body can be read: four transport calls, three
  delays, and the retry error.
\<close>

theorem retry_after_response_counterexample:
  "fst (Do (goEnv (unreadable 500)) demoClient getReq world0)
     = (None, Some (AttemptsErr 4
         (Some (Wrapf ''failed to read response body'' (External ''unexpected EOF''))))) \<and>
   length (sent (snd (Do (goEnv (unreadable 500)) demoClient getReq world0))) = 4 \<and>
   slept (snd (Do (goEnv (unreadable 500)) demoClient getReq world0))
     = [1000000000, 2000000000, 4000000000]"
  by (simp add: eval_defs)

subsection \<open>C10: WithContext\<close>


end
